theory Spec2Isabelle
  imports Complex_Main
begin

section \<open>Python values used by the playback core\<close>

text \<open>
  Volume, position and duration are Python floats. A float is either a finite number
  (modelled by the real number it denotes), an infinity, or NaN. The playback core only
  stores, compares and forwards these values, so no rounding enters the model.
\<close>

datatype pyfloat = Fin real | PosInf | NegInf | NaN

text \<open>Python's \<open>a <= b\<close> on floats: every comparison with NaN is false.\<close>

fun fle :: "pyfloat \<Rightarrow> pyfloat \<Rightarrow> bool" where
  "fle (Fin a) (Fin b) = (a \<le> b)"
| "fle (Fin a) PosInf = True"
| "fle (Fin a) _ = False"
| "fle NegInf NaN = False"
| "fle NegInf _ = True"
| "fle PosInf PosInf = True"
| "fle PosInf _ = False"
| "fle NaN _ = False"

text \<open>Truthiness of an optional string (\<open>None\<close> and the empty string are falsy).\<close>

fun truthy_str :: "string option \<Rightarrow> bool" where
  "truthy_str None = False"
| "truthy_str (Some u) = (u \<noteq> [])"

text \<open>Truthiness of an optional boolean, as delivered to a property observer.\<close>

fun truthy_bool :: "bool option \<Rightarrow> bool" where
  "truthy_bool None = False"
| "truthy_bool (Some b) = b"

datatype error = AttributeError | EngineError | RuntimeError

datatype outcome = Returned | Raised error

section \<open>The media engine\<close>

text \<open>
  The \<open>mpv.MPV\<close> object is an external library. The model records every call made on it
  and takes its behaviour as a parameter: given the calls made so far and the next call,
  the engine says whether that call raises. \<open>MpvSetVolume v\<close> stands for the assignment
  \<open>self._mpv_player.volume = v * 100\<close>, recorded with the argument \<open>v\<close> of
  \<open>set_volume\<close>.
\<close>

datatype engine_call =
    MpvCreate
  | MpvObserve string
  | MpvPlay string
  | MpvSetPause bool
  | MpvStop
  | MpvSetVolume pyfloat
  | MpvSetMute bool
  | MpvSeek pyfloat
  | MpvTerminate

type_synonym engine = "engine_call list \<Rightarrow> engine_call \<Rightarrow> bool"

definition quiet_engine :: engine where
  "quiet_engine past c = False"

section \<open>MPVBackend\<close>

text \<open>
  The fields of \<open>MPVBackend\<close>, named after the properties that read them.
  \<open>mpv_player\<close> is true when \<open>self._mpv_player\<close> is not \<open>None\<close>; \<open>engine_log\<close>
  is the trace of calls made on the engine. Each method runs atomically (the source
  serialises every field update with one lock). \<open>_notify_state_change\<close> only schedules
  the subscriber's task and writes no field, so it has no counterpart here.
\<close>

record backend =
  mpv_player :: bool
  volume_level :: pyfloat
  is_muted :: bool
  state :: string
  current_media :: "string option"
  media_position :: pyfloat
  media_duration :: pyfloat
  engine_log :: "engine_call list"

definition init_backend :: backend where
  "init_backend = \<lparr> mpv_player = False, volume_level = Fin 1, is_muted = False,
     state = ''idle'', current_media = None, media_position = Fin 0,
     media_duration = Fin 0, engine_log = [] \<rparr>"

text \<open>One call on the engine: whether it raised, and the backend with the call logged.\<close>

definition invoke :: "engine \<Rightarrow> engine_call \<Rightarrow> backend \<Rightarrow> bool \<times> backend" where
  "invoke eng c s = (eng (engine_log s) c, s\<lparr>engine_log := engine_log s @ [c]\<rparr>)"

text \<open>The four \<open>observe_property\<close> registrations of \<open>initialize\<close>, stopping at the first
  that raises.\<close>

fun observe_all :: "engine \<Rightarrow> string list \<Rightarrow> backend \<Rightarrow> outcome \<times> backend" where
  "observe_all eng [] s = (Returned, s)"
| "observe_all eng (n # ns) s =
     (case invoke eng (MpvObserve n) s of
        (True, s1) \<Rightarrow> (Raised EngineError, s1)
      | (False, s1) \<Rightarrow> observe_all eng ns s1)"

definition initialize :: "engine \<Rightarrow> backend \<Rightarrow> outcome \<times> backend" where
  "initialize eng s =
     (case invoke eng MpvCreate s of
        (True, s1) \<Rightarrow> (Raised EngineError, s1)
      | (False, s1) \<Rightarrow>
          observe_all eng [''time-pos'', ''duration'', ''pause'', ''eof-reached'']
            (s1\<lparr>mpv_player := True\<rparr>))"

definition on_position_change :: "pyfloat option \<Rightarrow> backend \<Rightarrow> backend" where
  "on_position_change v s =
     (case v of None \<Rightarrow> s | Some x \<Rightarrow> s\<lparr>media_position := x\<rparr>)"

definition on_duration_change :: "pyfloat option \<Rightarrow> backend \<Rightarrow> backend" where
  "on_duration_change v s =
     (case v of None \<Rightarrow> s | Some x \<Rightarrow> s\<lparr>media_duration := x\<rparr>)"

definition on_pause_change :: "bool option \<Rightarrow> backend \<Rightarrow> backend" where
  "on_pause_change v s =
     (if truthy_bool v then s\<lparr>state := ''paused''\<rparr>
      else if truthy_str (current_media s) then s\<lparr>state := ''playing''\<rparr>
      else s)"

definition on_eof :: "bool option \<Rightarrow> backend \<Rightarrow> backend" where
  "on_eof v s =
     (if truthy_bool v
      then s\<lparr>state := ''idle'', current_media := None, media_position := Fin 0\<rparr>
      else s)"

text \<open>
  \<open>play_media\<close>: the store is set to playing first; the engine call follows. With no engine
  object the attribute access on \<open>None\<close> raises. Either failure runs the handler, which
  resets state and media and re-raises.
\<close>

definition play_media :: "engine \<Rightarrow> string \<Rightarrow> backend \<Rightarrow> outcome \<times> backend" where
  "play_media eng media_url s =
     (let s1 = s\<lparr>current_media := Some media_url, state := ''playing''\<rparr> in
      if \<not> mpv_player s1
      then (Raised AttributeError, s1\<lparr>state := ''idle'', current_media := None\<rparr>)
      else (case invoke eng (MpvPlay media_url) s1 of
              (True, s2) \<Rightarrow> (Raised EngineError, s2\<lparr>state := ''idle'', current_media := None\<rparr>)
            | (False, s2) \<Rightarrow> (Returned, s2)))"

definition pause :: "engine \<Rightarrow> backend \<Rightarrow> outcome \<times> backend" where
  "pause eng s =
     (if mpv_player s
      then (case invoke eng (MpvSetPause True) s of
              (True, s1) \<Rightarrow> (Raised EngineError, s1)
            | (False, s1) \<Rightarrow> (Returned, s1))
      else (Returned, s))"

definition resume :: "engine \<Rightarrow> backend \<Rightarrow> outcome \<times> backend" where
  "resume eng s =
     (if mpv_player s
      then (case invoke eng (MpvSetPause False) s of
              (True, s1) \<Rightarrow> (Raised EngineError, s1)
            | (False, s1) \<Rightarrow> (Returned, s1))
      else (Returned, s))"

definition stop :: "engine \<Rightarrow> backend \<Rightarrow> outcome \<times> backend" where
  "stop eng s =
     (if mpv_player s
      then (case invoke eng MpvStop s of
              (True, s1) \<Rightarrow> (Raised EngineError, s1)
            | (False, s1) \<Rightarrow>
                (Returned, s1\<lparr>state := ''idle'', current_media := None,
                               media_position := Fin 0\<rparr>))
      else (Returned, s))"

text \<open>\<open>set_volume\<close>, \<open>set_mute\<close>, \<open>seek\<close> and \<open>cleanup\<close> catch every exception and only
  log it: a raising engine call skips the rest of the \<open>try\<close> body.\<close>

definition set_volume :: "engine \<Rightarrow> pyfloat \<Rightarrow> backend \<Rightarrow> outcome \<times> backend" where
  "set_volume eng volume s =
     (if mpv_player s
      then (case invoke eng (MpvSetVolume volume) s of
              (True, s1) \<Rightarrow> (Returned, s1)
            | (False, s1) \<Rightarrow> (Returned, s1\<lparr>volume_level := volume\<rparr>))
      else (Returned, s\<lparr>volume_level := volume\<rparr>))"

definition set_mute :: "engine \<Rightarrow> bool \<Rightarrow> backend \<Rightarrow> outcome \<times> backend" where
  "set_mute eng m s =
     (if mpv_player s
      then (case invoke eng (MpvSetMute m) s of
              (True, s1) \<Rightarrow> (Returned, s1)
            | (False, s1) \<Rightarrow> (Returned, s1\<lparr>is_muted := m\<rparr>))
      else (Returned, s\<lparr>is_muted := m\<rparr>))"

definition seek :: "engine \<Rightarrow> pyfloat \<Rightarrow> backend \<Rightarrow> outcome \<times> backend" where
  "seek eng pos s =
     (if mpv_player s \<and> truthy_str (current_media s)
      then (Returned, snd (invoke eng (MpvSeek pos) s))
      else (Returned, s))"

definition cleanup :: "engine \<Rightarrow> backend \<Rightarrow> outcome \<times> backend" where
  "cleanup eng s =
     (if mpv_player s
      then (case invoke eng MpvTerminate s of
              (True, s1) \<Rightarrow> (Returned, s1)
            | (False, s1) \<Rightarrow> (Returned, s1\<lparr>mpv_player := False\<rparr>))
      else (Returned, s))"

section \<open>PipePlayPlayer\<close>

text \<open>
  What the entity needs from outside this repository: the engine, the file system
  (\<open>Path(media_id).exists()\<close> and \<open>Path(media_id).name\<close>), the tags that
  \<open>MetadataHandler.extract_metadata\<close> returns (title, artist, album; that method catches
  its own exceptions), and whether Home Assistant's \<open>async_schedule_update_ha_state\<close>
  raises.
\<close>

record env =
  engine_of :: engine
  path_exists :: "string \<Rightarrow> bool"
  path_name :: "string \<Rightarrow> string"
  extract_metadata :: "string \<Rightarrow> string option \<times> string option \<times> string option"
  schedule_update_raises :: bool

record player =
  backend_of :: backend
  media_title :: "string option"
  media_artist :: "string option"
  media_album :: "string option"
  media_content_type :: "string option"

definition init_player :: player where
  "init_player = \<lparr> backend_of = init_backend, media_title = None, media_artist = None,
     media_album = None, media_content_type = None \<rparr>"

datatype MediaPlayerState = IDLE | PLAYING | PAUSED | BUFFERING

text \<open>The \<open>state\<close> property: \<open>state_mapping.get(backend_state, IDLE)\<close>.\<close>

definition player_state :: "player \<Rightarrow> MediaPlayerState" where
  "player_state p =
     (let backend_state = state (backend_of p) in
      if backend_state = ''idle'' then IDLE
      else if backend_state = ''playing'' then PLAYING
      else if backend_state = ''paused'' then PAUSED
      else if backend_state = ''buffering'' then BUFFERING
      else IDLE)"

text \<open>The call \<open>self.async_schedule_update_ha_state()\<close> that ends most commands.\<close>

definition schedule_update :: "env \<Rightarrow> player \<Rightarrow> outcome \<times> player" where
  "schedule_update e p =
     (if schedule_update_raises e then (Raised RuntimeError, p) else (Returned, p))"

definition async_added_to_hass :: "env \<Rightarrow> player \<Rightarrow> outcome \<times> player" where
  "async_added_to_hass e p =
     (case initialize (engine_of e) (backend_of p) of
        (o1, b) \<Rightarrow> (o1, p\<lparr>backend_of := b\<rparr>))"

definition async_will_remove_from_hass :: "env \<Rightarrow> player \<Rightarrow> outcome \<times> player" where
  "async_will_remove_from_hass e p =
     (case cleanup (engine_of e) (backend_of p) of
        (o1, b) \<Rightarrow> (o1, p\<lparr>backend_of := b\<rparr>))"

text \<open>The first part of \<open>async_play_media\<close>: the display metadata (from the tags of a
  local file, else the locator's last path component) and the content type.\<close>

definition set_media_info :: "env \<Rightarrow> string \<Rightarrow> string \<Rightarrow> player \<Rightarrow> player" where
  "set_media_info e media_type media_id p =
     (let p1 = (if path_exists e media_id
                then (case extract_metadata e media_id of
                        (t, ar, al) \<Rightarrow>
                          p\<lparr>media_title := t, media_artist := ar, media_album := al\<rparr>)
                else p\<lparr>media_title :=
                         Some (if path_name e media_id = [] then ''Unknown''
                               else path_name e media_id),
                       media_artist := None, media_album := None\<rparr>)
      in p1\<lparr>media_content_type :=
               Some (if media_type = ''music'' then ''music''
                     else if media_type = ''podcast'' then ''podcast''
                     else ''music'')\<rparr>)"

definition async_play_media :: "env \<Rightarrow> string \<Rightarrow> string \<Rightarrow> player \<Rightarrow> outcome \<times> player" where
  "async_play_media e media_type media_id p =
     (let p2 = set_media_info e media_type media_id p
      in case play_media (engine_of e) media_id (backend_of p2) of
           (Raised x, b) \<Rightarrow> (Raised x, p2\<lparr>backend_of := b\<rparr>)
         | (Returned, b) \<Rightarrow> schedule_update e (p2\<lparr>backend_of := b\<rparr>))"

definition async_media_play :: "env \<Rightarrow> player \<Rightarrow> outcome \<times> player" where
  "async_media_play e p =
     (if player_state p = PAUSED
      then (case resume (engine_of e) (backend_of p) of
              (o1, b) \<Rightarrow> (o1, p\<lparr>backend_of := b\<rparr>))
      else (Returned, p))"

definition async_media_pause :: "env \<Rightarrow> player \<Rightarrow> outcome \<times> player" where
  "async_media_pause e p =
     (case pause (engine_of e) (backend_of p) of
        (o1, b) \<Rightarrow> (o1, p\<lparr>backend_of := b\<rparr>))"

definition clear_media_info :: "player \<Rightarrow> player" where
  "clear_media_info p =
     p\<lparr>media_title := None, media_artist := None, media_album := None,
       media_content_type := None\<rparr>"

definition async_media_stop :: "env \<Rightarrow> player \<Rightarrow> outcome \<times> player" where
  "async_media_stop e p =
     (case stop (engine_of e) (backend_of p) of
        (Raised x, b) \<Rightarrow> (Raised x, p\<lparr>backend_of := b\<rparr>)
      | (Returned, b) \<Rightarrow> schedule_update e (clear_media_info (p\<lparr>backend_of := b\<rparr>)))"

definition async_set_volume_level :: "env \<Rightarrow> pyfloat \<Rightarrow> player \<Rightarrow> outcome \<times> player" where
  "async_set_volume_level e volume p =
     (case set_volume (engine_of e) volume (backend_of p) of
        (Raised x, b) \<Rightarrow> (Raised x, p\<lparr>backend_of := b\<rparr>)
      | (Returned, b) \<Rightarrow> schedule_update e (p\<lparr>backend_of := b\<rparr>))"

definition async_mute_volume :: "env \<Rightarrow> bool \<Rightarrow> player \<Rightarrow> outcome \<times> player" where
  "async_mute_volume e mute p =
     (case set_mute (engine_of e) mute (backend_of p) of
        (Raised x, b) \<Rightarrow> (Raised x, p\<lparr>backend_of := b\<rparr>)
      | (Returned, b) \<Rightarrow> schedule_update e (p\<lparr>backend_of := b\<rparr>))"

definition async_media_seek :: "env \<Rightarrow> pyfloat \<Rightarrow> player \<Rightarrow> outcome \<times> player" where
  "async_media_seek e pos p =
     (case seek (engine_of e) pos (backend_of p) of
        (Raised x, b) \<Rightarrow> (Raised x, p\<lparr>backend_of := b\<rparr>)
      | (Returned, b) \<Rightarrow> schedule_update e (p\<lparr>backend_of := b\<rparr>))"

section \<open>Commands, engine events and runs\<close>

text \<open>
  An action is one call of an entity method or one callback from the engine. The four
  callbacks are \<open>_on_position_change\<close>, \<open>_on_duration_change\<close>, \<open>_on_pause_change\<close> and
  \<open>_on_eof\<close>; each receives the new property value, which may be \<open>None\<close>.
\<close>

datatype action =
    AddedToHass
  | WillRemoveFromHass
  | PlayMedia string string
  | Play
  | Pause
  | Stop
  | SetVolume pyfloat
  | SetMute bool
  | Seek pyfloat
  | PositionChanged "pyfloat option"
  | DurationChanged "pyfloat option"
  | PauseChanged "bool option"
  | EndOfStream "bool option"

definition on_backend :: "(backend \<Rightarrow> backend) \<Rightarrow> player \<Rightarrow> outcome \<times> player" where
  "on_backend f p = (Returned, p\<lparr>backend_of := f (backend_of p)\<rparr>)"

fun step :: "env \<Rightarrow> action \<Rightarrow> player \<Rightarrow> outcome \<times> player" where
  "step e AddedToHass p = async_added_to_hass e p"
| "step e WillRemoveFromHass p = async_will_remove_from_hass e p"
| "step e (PlayMedia media_type media_id) p = async_play_media e media_type media_id p"
| "step e Play p = async_media_play e p"
| "step e Pause p = async_media_pause e p"
| "step e Stop p = async_media_stop e p"
| "step e (SetVolume v) p = async_set_volume_level e v p"
| "step e (SetMute m) p = async_mute_volume e m p"
| "step e (Seek pos) p = async_media_seek e pos p"
| "step e (PositionChanged v) p = on_backend (on_position_change v) p"
| "step e (DurationChanged v) p = on_backend (on_duration_change v) p"
| "step e (PauseChanged v) p = on_backend (on_pause_change v) p"
| "step e (EndOfStream v) p = on_backend (on_eof v) p"

text \<open>A run applies the actions in order; a command that raises leaves the store as the
  failed command left it, and the next action proceeds from there.\<close>

fun run :: "env \<Rightarrow> action list \<Rightarrow> player \<Rightarrow> player" where
  "run e [] p = p"
| "run e (a # as) p = run e as (snd (step e a p))"

definition quiet_env :: env where
  "quiet_env = \<lparr> engine_of = quiet_engine, path_exists = (\<lambda>u. False),
     path_name = (\<lambda>u. u), extract_metadata = (\<lambda>u. (None, None, None)),
     schedule_update_raises = False \<rparr>"

section \<open>Transports\<close>

subsection \<open>The HTTP command handler\<close>

text \<open>
  A decoded JSON body of \<open>POST /command\<close>, with the keys the handler reads; \<open>None\<close> is
  a missing key. \<open>handle_command\<close> is \<open>PipePlayAPIServer._handle_command\<close> after the body
  has been decoded; its second result is the server's media player afterwards.
\<close>

record command_request =
  req_command :: "string option"
  req_media_type :: "string option"
  req_media_id :: "string option"
  req_level :: "pyfloat option"
  req_muted :: "bool option"
  req_position :: "pyfloat option"

record response =
  status :: nat
  success :: bool

definition bad_request :: response where
  "bad_request = \<lparr> status = 400, success = False \<rparr>"

text \<open>After a command ran: \<open>{"success": true}\<close>, or the generic handler's status 500.\<close>

definition respond :: "outcome \<times> player \<Rightarrow> response \<times> player option" where
  "respond r =
     (case r of
        (Returned, p) \<Rightarrow> (\<lparr> status = 200, success = True \<rparr>, Some p)
      | (Raised x, p) \<Rightarrow> (\<lparr> status = 500, success = False \<rparr>, Some p))"

definition handle_command ::
  "env \<Rightarrow> command_request \<Rightarrow> player option \<Rightarrow> response \<times> player option" where
  "handle_command e req mp =
     (case mp of
        None \<Rightarrow> (\<lparr> status = 503, success = False \<rparr>, None)
      | Some p \<Rightarrow>
          if req_command req = Some ''play'' then respond (async_media_play e p)
          else if req_command req = Some ''pause'' then respond (async_media_pause e p)
          else if req_command req = Some ''stop'' then respond (async_media_stop e p)
          else if req_command req = Some ''play_media'' then
            (case req_media_id req of
               None \<Rightarrow> (bad_request, Some p)
             | Some media_id \<Rightarrow>
                 if media_id = [] then (bad_request, Some p)
                 else respond (async_play_media e
                        (case req_media_type req of None \<Rightarrow> ''music'' | Some t \<Rightarrow> t)
                        media_id p))
          else if req_command req = Some ''volume'' then
            (case req_level req of
               None \<Rightarrow> (bad_request, Some p)
             | Some level \<Rightarrow>
                 if \<not> (fle (Fin 0) level \<and> fle level (Fin 1)) then (bad_request, Some p)
                 else respond (async_set_volume_level e level p))
          else if req_command req = Some ''mute'' then
            (case req_muted req of
               None \<Rightarrow> (bad_request, Some p)
             | Some muted \<Rightarrow> respond (async_mute_volume e muted p))
          else if req_command req = Some ''seek'' then
            (case req_position req of
               None \<Rightarrow> (bad_request, Some p)
             | Some pos \<Rightarrow> respond (async_media_seek e pos p))
          else (bad_request, Some p))"

definition volume_request :: "pyfloat option \<Rightarrow> command_request" where
  "volume_request lv = \<lparr> req_command = Some ''volume'', req_media_type = None,
     req_media_id = None, req_level = lv, req_muted = None, req_position = None \<rparr>"

subsection \<open>Inputs of the running service\<close>

text \<open>
  While the service runs, the entity is driven by HTTP commands, by the engine's
  callbacks and by direct calls of its methods (the Home Assistant entity interface).
  The console loop of \<open>main\<close> is entered only after \<open>start\<close> has returned, which is after
  \<open>stop\<close> has cleared \<open>_running\<close>, so it reads no command and is not an input.
\<close>

datatype service_input = HttpCommand command_request | Direct action

fun service_step :: "env \<Rightarrow> service_input \<Rightarrow> player \<Rightarrow> player" where
  "service_step e (HttpCommand req) p =
     (case snd (handle_command e req (Some p)) of None \<Rightarrow> p | Some p' \<Rightarrow> p')"
| "service_step e (Direct a) p = snd (step e a p)"

fun service_run :: "env \<Rightarrow> service_input list \<Rightarrow> player \<Rightarrow> player" where
  "service_run e [] p = p"
| "service_run e (x # xs) p = service_run e xs (service_step e x p)"

section \<open>Vocabulary of the properties\<close>

text \<open>The closed interval from 0 to 1; infinities and NaN are outside it.\<close>

fun unit_interval :: "pyfloat \<Rightarrow> bool" where
  "unit_interval (Fin r) = (0 \<le> r \<and> r \<le> 1)"
| "unit_interval _ = False"

text \<open>An input whose volume argument, if it is a direct volume call, lies between 0 and 1.
  HTTP commands are not restricted: the handler checks their level itself.\<close>

fun in_range_input :: "service_input \<Rightarrow> bool" where
  "in_range_input (HttpCommand req) = True"
| "in_range_input (Direct (SetVolume v)) = unit_interval v"
| "in_range_input (Direct a) = True"

text \<open>The six fields a reader of the store observes.\<close>

definition snapshot ::
  "backend \<Rightarrow> string \<times> string option \<times> pyfloat \<times> pyfloat \<times> pyfloat \<times> bool" where
  "snapshot b = (state b, current_media b, media_position b, media_duration b,
     volume_level b, is_muted b)"

text \<open>The part of the media invariant that every run keeps: the state is one of the three
  names the backend assigns, and an idle store holds no media.\<close>

definition store_ok :: "backend \<Rightarrow> bool" where
  "store_ok b \<longleftrightarrow>
     (state b = ''idle'' \<and> current_media b = None) \<or> state b = ''playing'' \<or> state b = ''paused''"

definition pause_changed_to :: "bool \<Rightarrow> action \<Rightarrow> bool" where
  "pause_changed_to b a = (case a of PauseChanged v \<Rightarrow> truthy_bool v = b | _ \<Rightarrow> False)"

definition is_end_of_stream :: "action \<Rightarrow> bool" where
  "is_end_of_stream a = (case a of EndOfStream v \<Rightarrow> truthy_bool v | _ \<Rightarrow> False)"

definition is_play_media :: "action \<Rightarrow> bool" where
  "is_play_media a = (case a of PlayMedia t u \<Rightarrow> True | _ \<Rightarrow> False)"

text \<open>
  The state-changing rows of the specification's transition table (section 4.2), word for
  word: source state, trigger, outcome of the command, target state. It is the
  specification's table, kept apart from \<open>code_transition\<close> below, which is read off the
  source.
\<close>

definition spec_table_4_2 :: "string \<Rightarrow> action \<Rightarrow> outcome \<Rightarrow> string \<Rightarrow> bool" where
  "spec_table_4_2 src a r dst \<longleftrightarrow>
     (src = ''idle'' \<and> is_play_media a \<and> r = Returned \<and> dst = ''playing'')
   \<or> (src = ''playing'' \<and> pause_changed_to True a \<and> dst = ''paused'')
   \<or> (src = ''paused'' \<and> pause_changed_to False a \<and> dst = ''playing'')
   \<or> ((src = ''playing'' \<or> src = ''paused'') \<and> is_end_of_stream a \<and> dst = ''idle'')
   \<or> ((src = ''playing'' \<or> src = ''paused'') \<and> a = Stop \<and> dst = ''idle'')"

text \<open>
  The state changes the source makes, as assignments to \<open>_state\<close> occur in it:
  \<open>play_media\<close> sets playing from any state and its handler sets idle when the load
  fails; \<open>_on_pause_change\<close> sets paused or playing; \<open>_on_eof\<close> and \<open>stop\<close> set idle.
\<close>

definition code_transition :: "env \<Rightarrow> player \<Rightarrow> action \<Rightarrow> string \<Rightarrow> bool" where
  "code_transition e p a dst =
     (let src = state (backend_of p) in
      case a of
        PlayMedia t u \<Rightarrow>
          (if fst (play_media (engine_of e) u (backend_of p)) = Returned
           then dst = ''playing'' else dst = ''idle'')
      | PauseChanged v \<Rightarrow>
          (if truthy_bool v then src = ''playing'' \<and> dst = ''paused''
           else src = ''paused'' \<and> dst = ''playing'')
      | EndOfStream v \<Rightarrow>
          truthy_bool v \<and> (src = ''playing'' \<or> src = ''paused'') \<and> dst = ''idle''
      | Stop \<Rightarrow> (src = ''playing'' \<or> src = ''paused'') \<and> dst = ''idle''
      | _ \<Rightarrow> False)"

text \<open>An environment whose engine refuses to load the locator \<open>bad\<close> and accepts every
  other call.\<close>

definition picky_env :: env where
  "picky_env = quiet_env\<lparr>engine_of := (\<lambda>past c. c = MpvPlay ''bad'')\<rparr>"


section \<open>Basic facts about the backend and the entity\<close>

lemmas backend_defs = invoke_def initialize_def on_position_change_def on_duration_change_def
  on_pause_change_def on_eof_def play_media_def pause_def resume_def stop_def set_volume_def
  set_mute_def seek_def cleanup_def

lemmas player_defs = schedule_update_def set_media_info_def async_added_to_hass_def
  async_will_remove_from_hass_def async_play_media_def async_media_play_def
  async_media_pause_def clear_media_info_def async_media_stop_def async_set_volume_level_def
  async_mute_volume_def async_media_seek_def on_backend_def player_state_def

lemmas fixture_defs = quiet_env_def quiet_engine_def init_player_def init_backend_def

lemma level_check: "(fle (Fin 0) v \<and> fle v (Fin 1)) = unit_interval v"
  by (cases v) simp_all

lemma set_volume_returns: "fst (set_volume eng v s) = Returned"
  by (simp add: set_volume_def invoke_def split: bool.splits)

lemma set_volume_stores:
  "volume_level (snd (set_volume eng v s)) =
     (if mpv_player s \<and> eng (engine_log s) (MpvSetVolume v) then volume_level s else v)"
  by (simp add: set_volume_def invoke_def split: bool.splits)

subsection \<open>What each backend method does to state and media\<close>

lemma observe_all_store:
  "state (snd (observe_all eng ns s)) = state s \<and>
   current_media (snd (observe_all eng ns s)) = current_media s"
  by (induction ns arbitrary: s) (simp_all add: invoke_def split: bool.splits)

lemma initialize_store:
  "state (snd (initialize eng s)) = state s \<and>
   current_media (snd (initialize eng s)) = current_media s"
  by (simp add: initialize_def invoke_def observe_all_store split: bool.splits)

lemma pause_store:
  "state (snd (pause eng s)) = state s \<and> current_media (snd (pause eng s)) = current_media s"
  by (simp add: pause_def invoke_def split: bool.splits)

lemma resume_store:
  "state (snd (resume eng s)) = state s \<and> current_media (snd (resume eng s)) = current_media s"
  by (simp add: resume_def invoke_def split: bool.splits)

lemma set_volume_store:
  "state (snd (set_volume eng v s)) = state s \<and>
   current_media (snd (set_volume eng v s)) = current_media s"
  by (simp add: set_volume_def invoke_def split: bool.splits)

lemma set_mute_store:
  "state (snd (set_mute eng m s)) = state s \<and>
   current_media (snd (set_mute eng m s)) = current_media s"
  by (simp add: set_mute_def invoke_def split: bool.splits)

lemma seek_store:
  "state (snd (seek eng x s)) = state s \<and> current_media (snd (seek eng x s)) = current_media s"
  by (simp add: seek_def invoke_def)

lemma cleanup_store:
  "state (snd (cleanup eng s)) = state s \<and> current_media (snd (cleanup eng s)) = current_media s"
  by (simp add: cleanup_def invoke_def split: bool.splits)

lemma play_media_store:
  "(state (snd (play_media eng u s)), current_media (snd (play_media eng u s))) =
     (if fst (play_media eng u s) = Returned then (''playing'', Some u) else (''idle'', None))"
  by (simp add: play_media_def invoke_def Let_def split: bool.splits)

lemma play_media_returns_iff:
  "fst (play_media eng u s) = Returned \<longleftrightarrow> mpv_player s \<and> \<not> eng (engine_log s) (MpvPlay u)"
  by (simp add: play_media_def invoke_def Let_def split: bool.splits)

lemma stop_store:
  "(state (snd (stop eng s)), current_media (snd (stop eng s))) =
     (if mpv_player s \<and> \<not> eng (engine_log s) MpvStop then (''idle'', None)
      else (state s, current_media s))"
  by (simp add: stop_def invoke_def split: bool.splits)

lemmas store_frames = initialize_store pause_store resume_store set_volume_store set_mute_store
  seek_store cleanup_store

subsection \<open>What each backend method does to the position\<close>

lemma observe_all_position:
  "media_position (snd (observe_all eng ns s)) = media_position s"
  by (induction ns arbitrary: s) (simp_all add: invoke_def split: bool.splits)

lemma position_frames:
  "media_position (snd (initialize eng s)) = media_position s"
  "media_position (snd (cleanup eng s)) = media_position s"
  "media_position (snd (play_media eng u s)) = media_position s"
  "media_position (snd (pause eng s)) = media_position s"
  "media_position (snd (resume eng s)) = media_position s"
  "media_position (snd (set_volume eng v s)) = media_position s"
  "media_position (snd (set_mute eng m s)) = media_position s"
  "media_position (snd (seek eng x s)) = media_position s"
  by (simp_all add: backend_defs observe_all_position Let_def split: bool.splits)

lemma stop_position:
  "media_position (snd (stop eng s)) = media_position s \<or> media_position (snd (stop eng s)) = Fin 0"
  by (simp add: stop_def invoke_def split: bool.splits)

subsection \<open>What each backend method does to the volume\<close>

lemma observe_all_volume:
  "volume_level (snd (observe_all eng ns s)) = volume_level s"
  by (induction ns arbitrary: s) (simp_all add: invoke_def split: bool.splits)

lemma volume_frames:
  "volume_level (snd (initialize eng s)) = volume_level s"
  "volume_level (snd (cleanup eng s)) = volume_level s"
  "volume_level (snd (play_media eng u s)) = volume_level s"
  "volume_level (snd (pause eng s)) = volume_level s"
  "volume_level (snd (resume eng s)) = volume_level s"
  "volume_level (snd (stop eng s)) = volume_level s"
  "volume_level (snd (set_mute eng m s)) = volume_level s"
  "volume_level (snd (seek eng x s)) = volume_level s"
  "volume_level (on_position_change pv s) = volume_level s"
  "volume_level (on_duration_change pv s) = volume_level s"
  "volume_level (on_pause_change bv s) = volume_level s"
  "volume_level (on_eof bv s) = volume_level s"
  by (simp_all add: backend_defs observe_all_volume Let_def split: bool.splits option.splits)

subsection \<open>The entity's commands act on the store through the backend only\<close>

lemma backend_of_set_media_info: "backend_of (set_media_info e t u p) = backend_of p"
  by (simp add: set_media_info_def Let_def split: prod.splits)

lemma backend_of_async_added_to_hass:
  "backend_of (snd (async_added_to_hass e p)) = snd (initialize (engine_of e) (backend_of p))"
  by (simp add: async_added_to_hass_def split: prod.splits)

lemma backend_of_async_will_remove_from_hass:
  "backend_of (snd (async_will_remove_from_hass e p)) = snd (cleanup (engine_of e) (backend_of p))"
  by (simp add: async_will_remove_from_hass_def split: prod.splits)

lemma backend_of_async_play_media:
  "backend_of (snd (async_play_media e t u p)) = snd (play_media (engine_of e) u (backend_of p))"
  by (simp add: async_play_media_def schedule_update_def Let_def backend_of_set_media_info
      split: prod.splits outcome.splits)


lemma async_play_media_returned:
  "fst (async_play_media e t u p) = Returned \<Longrightarrow>
     fst (play_media (engine_of e) u (backend_of p)) = Returned"
  by (cases "play_media (engine_of e) u (backend_of p)")
     (simp add: async_play_media_def Let_def backend_of_set_media_info split: outcome.splits)

lemma backend_of_async_media_play:
  "backend_of (snd (async_media_play e p)) =
     (if player_state p = PAUSED then snd (resume (engine_of e) (backend_of p)) else backend_of p)"
  by (simp add: async_media_play_def split: prod.splits)

lemma backend_of_async_media_pause:
  "backend_of (snd (async_media_pause e p)) = snd (pause (engine_of e) (backend_of p))"
  by (simp add: async_media_pause_def split: prod.splits)

lemma backend_of_async_media_stop:
  "backend_of (snd (async_media_stop e p)) = snd (stop (engine_of e) (backend_of p))"
  by (simp add: async_media_stop_def schedule_update_def clear_media_info_def
      split: prod.splits outcome.splits)

lemma backend_of_async_set_volume_level:
  "backend_of (snd (async_set_volume_level e v p)) = snd (set_volume (engine_of e) v (backend_of p))"
  by (simp add: async_set_volume_level_def schedule_update_def split: prod.splits outcome.splits)

lemma backend_of_async_mute_volume:
  "backend_of (snd (async_mute_volume e m p)) = snd (set_mute (engine_of e) m (backend_of p))"
  by (simp add: async_mute_volume_def schedule_update_def split: prod.splits outcome.splits)

lemma backend_of_async_media_seek:
  "backend_of (snd (async_media_seek e x p)) = snd (seek (engine_of e) x (backend_of p))"
  by (simp add: async_media_seek_def schedule_update_def split: prod.splits outcome.splits)

lemma backend_of_on_backend: "backend_of (snd (on_backend f p)) = f (backend_of p)"
  by (simp add: on_backend_def)

lemmas backend_of_step = backend_of_async_added_to_hass backend_of_async_will_remove_from_hass
  backend_of_async_play_media backend_of_async_media_play backend_of_async_media_pause
  backend_of_async_media_stop backend_of_async_set_volume_level backend_of_async_mute_volume
  backend_of_async_media_seek backend_of_on_backend

subsection \<open>An invariant of every run\<close>

lemma step_store_ok:
  assumes "store_ok (backend_of p)"
  shows "store_ok (backend_of (snd (step e a p)))"
proof (cases a)
  case (PlayMedia t u)
  have "store_ok (snd (play_media (engine_of e) u (backend_of p)))"
    using play_media_store[of "engine_of e" u "backend_of p"]
    by (simp add: store_ok_def split: if_splits)
  with PlayMedia show ?thesis by (simp add: backend_of_step)
next
  case Stop
  have "store_ok (snd (stop (engine_of e) (backend_of p)))"
    using stop_store[of "engine_of e" "backend_of p"] assms
    by (simp add: store_ok_def split: if_splits)
  with Stop show ?thesis by (simp add: backend_of_step)
next
  case (PauseChanged x)
  with assms show ?thesis
    by (simp add: backend_of_step on_pause_change_def store_ok_def)
next
  case (EndOfStream x)
  with assms show ?thesis
    by (simp add: backend_of_step on_eof_def store_ok_def)
next
  case (PositionChanged x)
  with assms show ?thesis
    by (simp add: backend_of_step on_position_change_def store_ok_def split: option.splits)
next
  case (DurationChanged x)
  with assms show ?thesis
    by (simp add: backend_of_step on_duration_change_def store_ok_def split: option.splits)
qed (use assms in \<open>simp_all add: backend_of_step store_ok_def store_frames\<close>)

lemma run_store_ok: "store_ok (backend_of p) \<Longrightarrow> store_ok (backend_of (run e as p))"
  by (induction as arbitrary: p) (simp_all add: step_store_ok)

lemma reachable_store_ok: "store_ok (backend_of (run e as init_player))"
  by (rule run_store_ok) (simp add: store_ok_def init_player_def init_backend_def)

subsection \<open>The volume under the service's inputs\<close>

lemma step_volume:
  assumes "unit_interval (volume_level (backend_of p))"
    and "in_range_input (Direct a)"
  shows "unit_interval (volume_level (backend_of (snd (step e a p))))"
  using assms
  by (cases a) (simp_all add: backend_of_step volume_frames set_volume_stores)

lemma snd_respond: "snd (respond r) = Some (snd r)"
  by (simp add: respond_def split: prod.splits outcome.splits)

lemma handle_command_volume:
  assumes "unit_interval (volume_level (backend_of p))"
  shows "\<exists>p'. snd (handle_command e req (Some p)) = Some p'
     \<and> unit_interval (volume_level (backend_of p'))"
  using assms
  by (simp add: handle_command_def snd_respond backend_of_step volume_frames
      set_volume_stores level_check split: option.splits)

lemma service_step_volume:
  assumes "unit_interval (volume_level (backend_of p))" and "in_range_input x"
  shows "unit_interval (volume_level (backend_of (service_step e x p)))"
proof (cases x)
  case (HttpCommand req)
  with handle_command_volume[OF assms(1), of e req] show ?thesis by auto
next
  case (Direct a)
  with assms step_volume[of p a e] show ?thesis by simp
qed

lemma service_run_volume:
  "unit_interval (volume_level (backend_of p)) \<Longrightarrow> list_all in_range_input xs \<Longrightarrow>
     unit_interval (volume_level (backend_of (service_run e xs p)))"
  by (induction xs arbitrary: p) (simp_all add: service_step_volume)

subsection \<open>Which actions write the position\<close>

lemma position_after_step:
  assumes "media_position (backend_of (snd (step e a p))) \<noteq> media_position (backend_of p)"
  shows "a = PositionChanged (Some (media_position (backend_of (snd (step e a p)))))
     \<or> ((a = Stop \<or> is_end_of_stream a)
         \<and> media_position (backend_of (snd (step e a p))) = Fin 0)"
proof (cases a)
  case Stop
  with assms stop_position[of "engine_of e" "backend_of p"] show ?thesis
    by (auto simp: backend_of_step)
next
  case (PositionChanged x)
  with assms show ?thesis
    by (simp add: backend_of_step on_position_change_def split: option.splits)
next
  case (EndOfStream x)
  with assms show ?thesis
    by (simp add: backend_of_step on_eof_def is_end_of_stream_def split: if_splits)
qed (use assms in \<open>simp_all add: backend_of_step position_frames on_duration_change_def
      on_pause_change_def split: option.splits if_splits\<close>)

section \<open>Volume validation\<close>

text \<open>
  C1 (amended). The range check on the volume is made by the HTTP command handler, not
  by \<open>set_volume\<close>. A \<open>volume\<close> command is answered with the validation error (status
  400) exactly when its level is missing or outside the interval from 0 to 1, and then
  neither the store nor the engine is touched. It succeeds exactly when the level is in
  range and the closing state-update call does not raise; an accepted level is handed to
  \<open>set_volume\<close> unchanged. \<open>set_volume\<close> itself always returns and stores its argument
  exactly, whatever the value, unless the engine raises on the volume assignment, in
  which case the stored volume stays as it was.
\<close>

theorem volume_command_validated:
  "(status (fst (handle_command e (volume_request lv) (Some p))) = 400
      \<longleftrightarrow> \<not> (\<exists>v. lv = Some v \<and> unit_interval v))
   \<and> (status (fst (handle_command e (volume_request lv) (Some p))) = 400
      \<longrightarrow> snd (handle_command e (volume_request lv) (Some p)) = Some p)
   \<and> (success (fst (handle_command e (volume_request lv) (Some p)))
      \<longleftrightarrow> (\<exists>v. lv = Some v \<and> unit_interval v) \<and> \<not> schedule_update_raises e)
   \<and> (\<forall>v. lv = Some v \<and> unit_interval v \<longrightarrow>
        (\<exists>p'. snd (handle_command e (volume_request lv) (Some p)) = Some p'
           \<and> backend_of p' = snd (set_volume (engine_of e) v (backend_of p))))
   \<and> fst (set_volume eng w s) = Returned
   \<and> volume_level (snd (set_volume eng w s)) =
       (if mpv_player s \<and> eng (engine_log s) (MpvSetVolume w) then volume_level s else w)"
proof (cases lv)
  case None
  then show ?thesis
    by (simp add: handle_command_def volume_request_def bad_request_def
        set_volume_returns set_volume_stores)
next
  case (Some v)
  show ?thesis
  proof (cases "unit_interval v")
    case False
    with Some show ?thesis
      by (simp add: handle_command_def volume_request_def bad_request_def level_check
          set_volume_returns set_volume_stores)
  next
    case True
    obtain o1 b where sv: "set_volume (engine_of e) v (backend_of p) = (o1, b)"
      by (cases "set_volume (engine_of e) v (backend_of p)")
    then have "o1 = Returned"
      using set_volume_returns[of "engine_of e" v "backend_of p"] by simp
    with sv True Some show ?thesis
      by (simp add: handle_command_def volume_request_def level_check respond_def
          async_set_volume_level_def schedule_update_def
          set_volume_returns set_volume_stores)
  qed
qed

text \<open>The handler at the levels 0.3 (accepted and stored) and 1.5 (refused, nothing
  changed).\<close>

theorem volume_command_validated_witness:
  "status (fst (handle_command quiet_env (volume_request (Some (Fin (3 / 10)))) (Some init_player))) \<noteq> 400
   \<and> success (fst (handle_command quiet_env (volume_request (Some (Fin (3 / 10)))) (Some init_player)))
   \<and> (\<exists>p'. snd (handle_command quiet_env (volume_request (Some (Fin (3 / 10)))) (Some init_player)) = Some p'
         \<and> volume_level (backend_of p') = Fin (3 / 10))
   \<and> status (fst (handle_command quiet_env (volume_request (Some (Fin (3 / 2)))) (Some init_player))) = 400
   \<and> snd (handle_command quiet_env (volume_request (Some (Fin (3 / 2)))) (Some init_player)) = Some init_player"
proof -
  have e: "\<not> schedule_update_raises quiet_env" "backend_of init_player = init_backend"
    "\<not> mpv_player init_backend"
    by (simp_all add: quiet_env_def init_player_def init_backend_def)
  have a: "\<exists>v. Some (Fin (3 / 10)) = Some v \<and> unit_interval v" by simp
  have b: "\<not> (\<exists>v. Some (Fin (3 / 2)) = Some v \<and> unit_interval v)" by simp
  note ok = volume_command_validated
    [of quiet_env "Some (Fin (3 / 10))" init_player "engine_of quiet_env" "Fin (3 / 10)" init_backend]
  note bad = volume_command_validated
    [of quiet_env "Some (Fin (3 / 2))" init_player quiet_engine "Fin (3 / 2)" init_backend]
  from ok a e have 1:
    "status (fst (handle_command quiet_env (volume_request (Some (Fin (3 / 10)))) (Some init_player))) \<noteq> 400"
    "success (fst (handle_command quiet_env (volume_request (Some (Fin (3 / 10)))) (Some init_player)))"
    by blast+
  from ok e have 2:
    "\<exists>p'. snd (handle_command quiet_env (volume_request (Some (Fin (3 / 10)))) (Some init_player)) = Some p'
         \<and> volume_level (backend_of p') = Fin (3 / 10)"
    by auto
  from bad b have 3:
    "status (fst (handle_command quiet_env (volume_request (Some (Fin (3 / 2)))) (Some init_player))) = 400"
    "snd (handle_command quiet_env (volume_request (Some (Fin (3 / 2)))) (Some init_player)) = Some init_player"
    by blast+
  from 1 2 3 show ?thesis by simp
qed

text \<open>The unamended reading fails on \<open>set_volume\<close> itself: called with 1.5 it returns
  normally and stores 1.5.\<close>

theorem set_volume_accepts_out_of_range:
  "set_volume quiet_engine (Fin (3 / 2)) init_backend
     = (Returned, init_backend\<lparr>volume_level := Fin (3 / 2)\<rparr>)
   \<and> \<not> unit_interval (Fin (3 / 2))"
  by (simp add: set_volume_def init_backend_def)

section \<open>The media invariant\<close>

text \<open>
  C2. The invariant says that a store without media is idle. The source breaks it in
  \<open>_on_pause_change\<close>: a pause notification with a true value sets the state to paused
  without looking at \<open>current_media\<close>, although the branch for a false value does look.
  After the entity is set up and paused while idle, the engine's pause notification
  leaves the state paused with no media.
\<close>

theorem pause_event_breaks_media_invariant:
  "state (backend_of (run quiet_env [AddedToHass, Pause, PauseChanged (Some True)] init_player))
     = ''paused''
   \<and> current_media (backend_of
       (run quiet_env [AddedToHass, Pause, PauseChanged (Some True)] init_player)) = None"
  by (simp add: backend_defs player_defs fixture_defs)

section \<open>Stop\<close>

text \<open>
  C3 (amended). When an engine instance exists and \<open>stop\<close> returns, the state is idle,
  the media is cleared and the position is 0, whatever the state was before; this holds
  for the backend method and for the entity's stop command. When no engine instance
  exists, \<open>stop\<close> returns and leaves the store exactly as it was.
\<close>

theorem stop_with_engine_clears:
  "(mpv_player s \<and> fst (stop eng s) = Returned \<longrightarrow>
      state (snd (stop eng s)) = ''idle''
      \<and> current_media (snd (stop eng s)) = None
      \<and> media_position (snd (stop eng s)) = Fin 0)
   \<and> (mpv_player (backend_of p) \<and> fst (stop (engine_of e) (backend_of p)) = Returned \<longrightarrow>
      state (backend_of (snd (async_media_stop e p))) = ''idle''
      \<and> current_media (backend_of (snd (async_media_stop e p))) = None
      \<and> media_position (backend_of (snd (async_media_stop e p))) = Fin 0)
   \<and> (\<not> mpv_player s \<longrightarrow> stop eng s = (Returned, s))"
  by (simp add: backend_of_async_media_stop) (simp add: stop_def invoke_def split: bool.splits)

text \<open>Stopping a playing entity whose engine exists, and stopping the initial backend,
  which has none.\<close>

theorem stop_with_engine_clears_witness:
  "mpv_player (backend_of (run quiet_env [AddedToHass, PlayMedia ''music'' ''a''] init_player))
   \<and> fst (stop quiet_engine
        (backend_of (run quiet_env [AddedToHass, PlayMedia ''music'' ''a''] init_player))) = Returned
   \<and> state (backend_of (run quiet_env [AddedToHass, PlayMedia ''music'' ''a''] init_player))
        = ''playing''
   \<and> state (backend_of (snd (async_media_stop quiet_env
        (run quiet_env [AddedToHass, PlayMedia ''music'' ''a''] init_player)))) = ''idle''
   \<and> current_media (backend_of (snd (async_media_stop quiet_env
        (run quiet_env [AddedToHass, PlayMedia ''music'' ''a''] init_player)))) = None
   \<and> media_position (backend_of (snd (async_media_stop quiet_env
        (run quiet_env [AddedToHass, PlayMedia ''music'' ''a''] init_player)))) = Fin 0
   \<and> stop quiet_engine init_backend = (Returned, init_backend)"
proof -
  let ?p = "run quiet_env [AddedToHass, PlayMedia ''music'' ''a''] init_player"
  have pre: "mpv_player (backend_of ?p)"
    "fst (stop quiet_engine (backend_of ?p)) = Returned"
    "state (backend_of ?p) = ''playing''"
    "engine_of quiet_env = quiet_engine"
    "\<not> mpv_player init_backend"
    by (simp_all add: backend_defs player_defs fixture_defs)
  from stop_with_engine_clears [of "backend_of ?p" quiet_engine ?p quiet_env] pre
  have a: "state (backend_of (snd (async_media_stop quiet_env ?p))) = ''idle''
      \<and> current_media (backend_of (snd (async_media_stop quiet_env ?p))) = None
      \<and> media_position (backend_of (snd (async_media_stop quiet_env ?p))) = Fin 0"
    by simp
  from stop_with_engine_clears [of init_backend quiet_engine init_player quiet_env] pre
  have b: "stop quiet_engine init_backend = (Returned, init_backend)"
    by blast
  from a b pre show ?thesis by simp
qed

text \<open>The unamended reading fails once the engine has been released: after set-up, a
  successful load and the entity's removal, the stop command returns and the store still
  says playing.\<close>

theorem stop_without_engine_keeps_playing:
  "fst (step quiet_env Stop
          (run quiet_env [AddedToHass, PlayMedia ''music'' ''a.mp3'', WillRemoveFromHass]
             init_player)) = Returned
   \<and> state (backend_of (run quiet_env
          [AddedToHass, PlayMedia ''music'' ''a.mp3'', WillRemoveFromHass, Stop] init_player))
        = ''playing''
   \<and> current_media (backend_of (run quiet_env
          [AddedToHass, PlayMedia ''music'' ''a.mp3'', WillRemoveFromHass, Stop] init_player))
        = Some ''a.mp3''"
  by (simp add: backend_defs player_defs fixture_defs)

section \<open>The volume range\<close>

text \<open>
  C4 (amended). The stored volume lies between 0 and 1 in every state reached from the
  initial entity by any sequence of HTTP commands, engine callbacks and direct entity
  calls, as long as every direct volume call is given a level between 0 and 1. HTTP
  volume commands need no such proviso, the handler refuses the others. \<open>set_volume\<close>
  itself makes no check.
\<close>

theorem volume_in_range_under_inputs:
  "list_all in_range_input xs \<Longrightarrow>
     unit_interval (volume_level (backend_of (service_run e xs init_player)))"
  by (rule service_run_volume) (simp_all add: init_player_def init_backend_def)

text \<open>Set-up, an accepted HTTP volume command, a refused one and a pause notification:
  the volume is 0.3 afterwards.\<close>

theorem volume_in_range_under_inputs_witness:
  "list_all in_range_input
     [Direct AddedToHass, HttpCommand (volume_request (Some (Fin (3 / 10)))),
      HttpCommand (volume_request (Some (Fin (3 / 2)))), Direct (PauseChanged (Some True))]
   \<and> volume_level (backend_of (service_run quiet_env
       [Direct AddedToHass, HttpCommand (volume_request (Some (Fin (3 / 10)))),
        HttpCommand (volume_request (Some (Fin (3 / 2)))), Direct (PauseChanged (Some True))]
       init_player)) = Fin (3 / 10)
   \<and> unit_interval (volume_level (backend_of (service_run quiet_env
       [Direct AddedToHass, HttpCommand (volume_request (Some (Fin (3 / 10)))),
        HttpCommand (volume_request (Some (Fin (3 / 2)))), Direct (PauseChanged (Some True))]
       init_player)))"
proof -
  let ?xs = "[Direct AddedToHass, HttpCommand (volume_request (Some (Fin (3 / 10)))),
      HttpCommand (volume_request (Some (Fin (3 / 2)))), Direct (PauseChanged (Some True))]"
  have h: "list_all in_range_input ?xs" by simp
  have v: "volume_level (backend_of (service_run quiet_env ?xs init_player)) = Fin (3 / 10)"
    by (simp add: handle_command_def volume_request_def respond_def bad_request_def
        backend_defs player_defs fixture_defs)
  from volume_in_range_under_inputs [OF h, of quiet_env] h v show ?thesis by simp
qed

text \<open>The unamended reading fails on a direct volume call: with the engine set up and
  accepting every call, the level 2 is stored as it is.\<close>

theorem direct_volume_call_unchecked:
  "fst (step quiet_env (SetVolume (Fin 2)) (run quiet_env [AddedToHass] init_player)) = Returned
   \<and> volume_level (backend_of (run quiet_env [AddedToHass, SetVolume (Fin 2)] init_player)) = Fin 2
   \<and> unit_interval (volume_level (backend_of (run quiet_env [AddedToHass] init_player)))
   \<and> unit_interval (Fin 2) = False"
  by (simp add: backend_defs player_defs fixture_defs)

section \<open>State transitions\<close>

text \<open>
  C5 (amended). Along every run from the initial entity, leaving aside a true pause
  notification that arrives while the store is idle, the state field changes only in
  these ways: to playing, from any state, when \<open>play_media\<close> succeeds; to idle when
  \<open>play_media\<close> fails; from playing to paused on a true pause notification; from paused
  to playing on a false one; from playing or paused to idle on a true end-of-stream
  notification or on stop. Position and duration notifications never change the state.
\<close>

theorem state_changes_follow_table:
  assumes reach: "p = run e as init_player"
    and change: "state (backend_of (snd (step e a p))) \<noteq> state (backend_of p)"
    and covered: "\<not> (state (backend_of p) = ''idle'' \<and> pause_changed_to True a)"
  shows "code_transition e p a (state (backend_of (snd (step e a p))))
     \<and> state (backend_of (snd (step e (PositionChanged v) q))) = state (backend_of q)
     \<and> state (backend_of (snd (step e (DurationChanged w) q))) = state (backend_of q)"
proof -
  have ok: "store_ok (backend_of p)"
    unfolding reach by (rule reachable_store_ok)
  have pos: "state (backend_of (snd (step e (PositionChanged v) q))) = state (backend_of q)"
    by (simp add: on_backend_def on_position_change_def split: option.splits)
  have dur: "state (backend_of (snd (step e (DurationChanged w) q))) = state (backend_of q)"
    by (simp add: on_backend_def on_duration_change_def split: option.splits)
  have "code_transition e p a (state (backend_of (snd (step e a p))))"
  proof (cases a)
    case (PlayMedia t u)
    then show ?thesis
      by (simp add: code_transition_def backend_of_async_play_media)
         (simp add: play_media_def invoke_def Let_def split: bool.splits)
  next
    case (PauseChanged x)
    with change covered ok show ?thesis
      by (auto simp: code_transition_def on_backend_def on_pause_change_def
          pause_changed_to_def store_ok_def split: if_splits)
  next
    case (EndOfStream x)
    with change ok show ?thesis
      by (auto simp: code_transition_def on_backend_def on_eof_def store_ok_def
          split: if_splits)
  next
    case Stop
    with change ok show ?thesis
      by (auto simp: code_transition_def backend_of_async_media_stop stop_def invoke_def
          store_ok_def split: if_splits bool.splits)
  qed (use change in \<open>simp_all add: backend_of_step store_frames
        on_position_change_def on_duration_change_def split: option.splits if_splits\<close>)
  with pos dur show ?thesis by simp
qed

text \<open>A playing entity receives a true pause notification.\<close>

theorem state_changes_follow_table_witness:
  "state (backend_of (snd (step quiet_env (PauseChanged (Some True))
       (run quiet_env [AddedToHass, PlayMedia ''music'' ''a''] init_player))))
     \<noteq> state (backend_of (run quiet_env [AddedToHass, PlayMedia ''music'' ''a''] init_player))
   \<and> state (backend_of (run quiet_env [AddedToHass, PlayMedia ''music'' ''a''] init_player))
       = ''playing''
   \<and> code_transition quiet_env
        (run quiet_env [AddedToHass, PlayMedia ''music'' ''a''] init_player)
        (PauseChanged (Some True)) ''paused''"
proof -
  let ?p = "run quiet_env [AddedToHass, PlayMedia ''music'' ''a''] init_player"
  have src: "state (backend_of ?p) = ''playing''"
    by (simp add: backend_defs player_defs fixture_defs)
  have dst: "state (backend_of (snd (step quiet_env (PauseChanged (Some True)) ?p))) = ''paused''"
    by (simp add: on_backend_def on_pause_change_def)
  have change: "state (backend_of (snd (step quiet_env (PauseChanged (Some True)) ?p)))
      \<noteq> state (backend_of ?p)"
    by (simp only: src dst) simp
  have covered:
    "\<not> (state (backend_of ?p) = ''idle'' \<and> pause_changed_to True (PauseChanged (Some True)))"
    by (simp only: src) simp
  from state_changes_follow_table [OF refl change covered] dst src change
  show ?thesis by simp
qed

text \<open>The unamended table has no row for a load that starts while the store is paused:
  it takes the state from paused to playing.\<close>

theorem paused_to_playing_by_play_media:
  "state (backend_of (run quiet_env
      [AddedToHass, PlayMedia ''music'' ''a'', PauseChanged (Some True)] init_player)) = ''paused''
   \<and> fst (step quiet_env (PlayMedia ''music'' ''b'') (run quiet_env
      [AddedToHass, PlayMedia ''music'' ''a'', PauseChanged (Some True)] init_player)) = Returned
   \<and> state (backend_of (snd (step quiet_env (PlayMedia ''music'' ''b'') (run quiet_env
      [AddedToHass, PlayMedia ''music'' ''a'', PauseChanged (Some True)] init_player))))
       = ''playing''
   \<and> \<not> spec_table_4_2 ''paused'' (PlayMedia ''music'' ''b'') Returned ''playing''"
  by (simp add: backend_defs player_defs fixture_defs spec_table_4_2_def is_play_media_def
      pause_changed_to_def is_end_of_stream_def)

section \<open>Commands without an engine\<close>

text \<open>
  C6 (amended). When no backend engine instance exists, \<open>pause\<close>, \<open>resume\<close> and \<open>stop\<close>
  return normally, raise no error, call nothing and leave the store as it was.
\<close>

theorem no_engine_commands_are_noops:
  "\<not> mpv_player s \<Longrightarrow>
     pause eng s = (Returned, s) \<and> resume eng s = (Returned, s) \<and> stop eng s = (Returned, s)"
  by (simp add: pause_def resume_def stop_def)

text \<open>The initial backend has no engine.\<close>

theorem no_engine_commands_are_noops_witness:
  "\<not> mpv_player init_backend
   \<and> pause quiet_engine init_backend = (Returned, init_backend)
   \<and> resume quiet_engine init_backend = (Returned, init_backend)
   \<and> stop quiet_engine init_backend = (Returned, init_backend)"
proof -
  have h: "\<not> mpv_player init_backend" by (simp add: init_backend_def)
  from no_engine_commands_are_noops [OF h, of quiet_engine] h show ?thesis by simp
qed

text \<open>The unamended reading expects an error; the three methods return instead.\<close>

theorem pause_without_engine_returns:
  "fst (pause quiet_engine init_backend) = Returned
   \<and> fst (resume quiet_engine init_backend) = Returned
   \<and> fst (stop quiet_engine init_backend) = Returned
   \<and> mpv_player init_backend = False"
  by (simp add: pause_def resume_def stop_def init_backend_def)

section \<open>Loading media\<close>



text \<open>
  C8 (amended). For every locator, when \<open>play_media\<close> succeeds, from idle or from any
  other state, the resulting store has state playing and the locator as current media.
  \<open>play_media\<close> does not write the position: it keeps the value it had before the call.
\<close>

theorem play_media_success_sets_playing:
  "(fst (play_media eng media_url s) = Returned \<longrightarrow>
      state (snd (play_media eng media_url s)) = ''playing''
      \<and> current_media (snd (play_media eng media_url s)) = Some media_url
      \<and> media_position (snd (play_media eng media_url s)) = media_position s)
   \<and> (fst (async_play_media e media_type media_id p) = Returned \<longrightarrow>
      state (backend_of (snd (async_play_media e media_type media_id p))) = ''playing''
      \<and> current_media (backend_of (snd (async_play_media e media_type media_id p))) = Some media_id
      \<and> media_position (backend_of (snd (async_play_media e media_type media_id p)))
          = media_position (backend_of p))"
proof -
  have be: "fst (play_media g u b) = Returned \<Longrightarrow>
      state (snd (play_media g u b)) = ''playing'' \<and> current_media (snd (play_media g u b)) = Some u"
    for g u b
    using play_media_store[of g u b] by simp
  show ?thesis
    using be[of eng media_url s] be[of "engine_of e" media_id "backend_of p"]
      async_play_media_returned[of e media_type media_id p]
    by (simp add: position_frames backend_of_async_play_media)
qed

text \<open>The first load after set-up.\<close>

theorem play_media_success_sets_playing_witness:
  "fst (async_play_media quiet_env ''music'' ''a.mp3''
          (snd (async_added_to_hass quiet_env init_player))) = Returned
   \<and> state (backend_of (snd (async_added_to_hass quiet_env init_player))) = ''idle''
   \<and> state (backend_of (snd (async_play_media quiet_env ''music'' ''a.mp3''
        (snd (async_added_to_hass quiet_env init_player))))) = ''playing''
   \<and> current_media (backend_of (snd (async_play_media quiet_env ''music'' ''a.mp3''
        (snd (async_added_to_hass quiet_env init_player))))) = Some ''a.mp3''
   \<and> media_position (backend_of (snd (async_play_media quiet_env ''music'' ''a.mp3''
        (snd (async_added_to_hass quiet_env init_player))))) = Fin 0"
proof -
  let ?p = "snd (async_added_to_hass quiet_env init_player)"
  have pre: "fst (async_play_media quiet_env ''music'' ''a.mp3'' ?p) = Returned"
    "state (backend_of ?p) = ''idle''" "media_position (backend_of ?p) = Fin 0"
    by (simp_all add: backend_defs player_defs fixture_defs)
  from play_media_success_sets_playing
    [of quiet_engine "''a.mp3''" init_backend quiet_env "''music''" "''a.mp3''" ?p] pre
  show ?thesis by simp
qed

text \<open>The unamended reading fails when the store became idle through a failed load: the
  position of the earlier item, 42, is still there after the next load succeeds.\<close>

theorem play_media_keeps_stale_position:
  "state (backend_of (run picky_env
      [AddedToHass, PlayMedia ''music'' ''a'', PositionChanged (Some (Fin 42)),
       PlayMedia ''music'' ''bad''] init_player)) = ''idle''
   \<and> fst (step picky_env (PlayMedia ''music'' ''b'') (run picky_env
      [AddedToHass, PlayMedia ''music'' ''a'', PositionChanged (Some (Fin 42)),
       PlayMedia ''music'' ''bad''] init_player)) = Returned
   \<and> state (backend_of (run picky_env
      [AddedToHass, PlayMedia ''music'' ''a'', PositionChanged (Some (Fin 42)),
       PlayMedia ''music'' ''bad'', PlayMedia ''music'' ''b''] init_player)) = ''playing''
   \<and> media_position (backend_of (run picky_env
      [AddedToHass, PlayMedia ''music'' ''a'', PositionChanged (Some (Fin 42)),
       PlayMedia ''music'' ''bad'', PlayMedia ''music'' ''b''] init_player)) = Fin 42"
  by (simp add: picky_env_def backend_defs player_defs fixture_defs)

section \<open>Play and seek\<close>

text \<open>
  C9. While the observed state is playing or idle, and in fact whenever it is not paused,
  the play command returns the entity exactly as it was: no field of the store changes
  and no call reaches the engine. From paused, with an engine present, it makes the one
  engine call that clears the pause flag.
\<close>

theorem play_is_noop_unless_paused:
  "(player_state p = PLAYING \<or> player_state p = IDLE \<longrightarrow> async_media_play e p = (Returned, p))
   \<and> (player_state p \<noteq> PAUSED \<longrightarrow> async_media_play e p = (Returned, p))
   \<and> (player_state p = PAUSED \<and> mpv_player (backend_of p) \<longrightarrow>
        snd (async_media_play e p) =
          p\<lparr>backend_of := (backend_of p)
              \<lparr>engine_log := engine_log (backend_of p) @ [MpvSetPause False]\<rparr>\<rparr>)"
  by (auto simp: async_media_play_def resume_def invoke_def split: bool.splits)

text \<open>Play on a playing entity, on the initial (idle) one, and on a paused one.\<close>

theorem play_is_noop_unless_paused_witness:
  "player_state (run quiet_env [AddedToHass, PlayMedia ''music'' ''a''] init_player) = PLAYING
   \<and> async_media_play quiet_env (run quiet_env [AddedToHass, PlayMedia ''music'' ''a''] init_player)
       = (Returned, run quiet_env [AddedToHass, PlayMedia ''music'' ''a''] init_player)
   \<and> player_state init_player = IDLE
   \<and> async_media_play quiet_env init_player = (Returned, init_player)
   \<and> player_state (run quiet_env
        [AddedToHass, PlayMedia ''music'' ''a'', PauseChanged (Some True)] init_player) = PAUSED
   \<and> engine_log (backend_of (snd (async_media_play quiet_env (run quiet_env
        [AddedToHass, PlayMedia ''music'' ''a'', PauseChanged (Some True)] init_player))))
      = engine_log (backend_of (run quiet_env
        [AddedToHass, PlayMedia ''music'' ''a'', PauseChanged (Some True)] init_player))
        @ [MpvSetPause False]"
proof -
  let ?p = "run quiet_env [AddedToHass, PlayMedia ''music'' ''a''] init_player"
  let ?q = "run quiet_env
    [AddedToHass, PlayMedia ''music'' ''a'', PauseChanged (Some True)] init_player"
  have pre: "player_state ?p = PLAYING" "player_state init_player = IDLE"
    "player_state ?q = PAUSED" "mpv_player (backend_of ?q)"
    by (simp_all add: backend_defs player_defs fixture_defs)
  from play_is_noop_unless_paused [of ?p quiet_env] pre(1)
  have a: "async_media_play quiet_env ?p = (Returned, ?p)" by blast
  from play_is_noop_unless_paused [of init_player quiet_env] pre(2)
  have b: "async_media_play quiet_env init_player = (Returned, init_player)" by blast
  from play_is_noop_unless_paused [of ?q quiet_env] pre(3,4)
  have "snd (async_media_play quiet_env ?q) =
      ?q\<lparr>backend_of := (backend_of ?q)
          \<lparr>engine_log := engine_log (backend_of ?q) @ [MpvSetPause False]\<rparr>\<rparr>"
    by blast
  then have c: "engine_log (backend_of (snd (async_media_play quiet_env ?q)))
      = engine_log (backend_of ?q) @ [MpvSetPause False]"
    by (simp only:) simp
  from a b c pre show ?thesis by (simp only:)
qed

text \<open>
  C10 (amended). For every position argument \<open>seek\<close> returns normally and leaves state, media,
  position, duration, volume and mute as they were, in the backend method and in the
  entity's seek command. It calls the engine only when an engine exists and the current
  media is set and non-empty; otherwise it does nothing at all. The position is given a
  new playback value by the position notification alone; the only other writes are the
  resets to 0 made by stop and by a true end-of-stream notification.
\<close>

theorem seek_leaves_store_unchanged:
  "fst (seek eng pos s) = Returned
   \<and> snapshot (snd (seek eng pos s)) = snapshot s
   \<and> mpv_player (snd (seek eng pos s)) = mpv_player s
   \<and> engine_log (snd (seek eng pos s)) =
       (if mpv_player s \<and> truthy_str (current_media s)
        then engine_log s @ [MpvSeek pos] else engine_log s)
   \<and> snapshot (backend_of (snd (async_media_seek e pos p))) = snapshot (backend_of p)
   \<and> (media_position (backend_of (snd (step e a p))) \<noteq> media_position (backend_of p) \<longrightarrow>
        a = PositionChanged (Some (media_position (backend_of (snd (step e a p)))))
        \<or> ((a = Stop \<or> is_end_of_stream a)
            \<and> media_position (backend_of (snd (step e a p))) = Fin 0))"
proof -
  have frame: "fst (seek eng pos s) = Returned
     \<and> snapshot (snd (seek eng pos s)) = snapshot s
     \<and> mpv_player (snd (seek eng pos s)) = mpv_player s
     \<and> engine_log (snd (seek eng pos s)) =
         (if mpv_player s \<and> truthy_str (current_media s)
          then engine_log s @ [MpvSeek pos] else engine_log s)"
    by (simp add: seek_def invoke_def snapshot_def)
  have entity: "snapshot (backend_of (snd (async_media_seek e pos p))) = snapshot (backend_of p)"
    by (simp add: backend_of_async_media_seek) (simp add: seek_def invoke_def snapshot_def)
  from frame entity position_after_step[of e a p] show ?thesis by blast
qed

text \<open>A seek during playback reaches the engine and changes nothing in the store; the
  position notification that follows is what moves the position.\<close>

theorem seek_leaves_store_unchanged_witness:
  "snapshot (backend_of (snd (async_media_seek quiet_env (Fin 30)
       (run quiet_env [AddedToHass, PlayMedia ''music'' ''a''] init_player))))
     = snapshot (backend_of (run quiet_env [AddedToHass, PlayMedia ''music'' ''a''] init_player))
   \<and> media_position (backend_of (snd (step quiet_env (PositionChanged (Some (Fin 30)))
       (run quiet_env [AddedToHass, PlayMedia ''music'' ''a''] init_player))))
     \<noteq> media_position (backend_of (run quiet_env [AddedToHass, PlayMedia ''music'' ''a''] init_player))
   \<and> seek quiet_engine (Fin 30) init_backend = (Returned, init_backend)"
proof -
  let ?p = "run quiet_env [AddedToHass, PlayMedia ''music'' ''a''] init_player"
  note t = seek_leaves_store_unchanged
    [of quiet_engine "Fin 30" init_backend quiet_env ?p "PositionChanged (Some (Fin 30))"]
  have moved: "media_position (backend_of (snd (step quiet_env (PositionChanged (Some (Fin 30))) ?p)))
      \<noteq> media_position (backend_of ?p)"
    by (simp add: backend_defs player_defs fixture_defs)
  have idle: "seek quiet_engine (Fin 30) init_backend = (Returned, init_backend)"
    by (simp add: seek_def init_backend_def)
  from t moved idle show ?thesis by blast
qed

text \<open>The unamended reading has the position notification as the only writer of the
  position. Stop writes it too: a position of 42 is back at 0 after the stop command.\<close>

theorem stop_resets_position:
  "media_position (backend_of (run quiet_env
      [AddedToHass, PlayMedia ''music'' ''a'', PositionChanged (Some (Fin 42))] init_player))
     = Fin 42
   \<and> fst (step quiet_env Stop (run quiet_env
      [AddedToHass, PlayMedia ''music'' ''a'', PositionChanged (Some (Fin 42))] init_player))
     = Returned
   \<and> media_position (backend_of (run quiet_env
      [AddedToHass, PlayMedia ''music'' ''a'', PositionChanged (Some (Fin 42)), Stop] init_player))
     = Fin 0"
  by (simp add: backend_defs player_defs fixture_defs)

end
